theory Spec2Isabelle
  imports Main
begin

section \<open>UILabel: a text label over one child element\<close>

text \<open>
  The development embeds \<^verbatim>\<open>js/lib/famous-web-components/controls/UILabel.js\<close>.
  A label owns one child \<^verbatim>\<open>UIElement\<close>, which owns one platform surface. Every method
  of the label is a function on an explicit state; a JavaScript \<^verbatim>\<open>TypeError\<close> (a
  property read on \<^verbatim>\<open>undefined\<close> or \<^verbatim>\<open>null\<close>) is the left injection of a sum.
\<close>

subsection \<open>Values\<close>

text \<open>
  One entry of a size array. The source writes numbers (pixel counts), the literal
  \<^verbatim>\<open>true\<close> (derive the dimension from the content) and \<^verbatim>\<open>undefined\<close>. The label never
  computes with the numbers; it stores and forwards them.
\<close>

datatype dim = Num int | Auto | Undefined

type_synonym dims = "dim list"

type_synonym css = "(string \<times> string) list"

datatype error = TypeError

text \<open>
  Assignment \<^verbatim>\<open>xs[i] = v\<close> on a JavaScript array: inside the array the entry is replaced,
  beyond its end the array grows, and the entries skipped over read as \<^verbatim>\<open>undefined\<close>.
\<close>

definition array_set :: "dims \<Rightarrow> nat \<Rightarrow> dim \<Rightarrow> dims" where
  "array_set xs i v =
     (if i < length xs then xs[i := v]
      else xs @ replicate (i - length xs) Undefined @ [v])"

subsection \<open>The collaborators: platform surface and child element\<close>

text \<open>
  The DOM node a surface is attached to (\<^verbatim>\<open>_currentTarget\<close>); the label reads its
  \<^verbatim>\<open>clientWidth\<close> and \<^verbatim>\<open>clientHeight\<close>.
\<close>

record target =
  clientWidth :: int
  clientHeight :: int

text \<open>
  The platform surface, as far as the label touches it: the \<^verbatim>\<open>_contentDirty\<close> flag it
  writes, the size it sets through \<^verbatim>\<open>setSize\<close>, and \<^verbatim>\<open>_currentTarget\<close>, which is
  \<^verbatim>\<open>null\<close> (\<open>None\<close>) while the surface is not attached.
\<close>

record surface =
  contentDirty :: bool
  surface_size :: dims
  currentTarget :: "target option"

text \<open>
  Modelled from the spec: \<^verbatim>\<open>Surface.setSize\<close> belongs to the rendering engine, which is
  not part of the sources. The spec lists \<^verbatim>\<open>setSize\<close> in the surface's contract; it is
  modelled as storing the requested size.
\<close>

definition Surface_setSize :: "dims \<Rightarrow> surface \<Rightarrow> surface" where
  "Surface_setSize sz s = s\<lparr>surface_size := sz\<rparr>"

text \<open>
  The child element (\<^verbatim>\<open>core/UIElement\<close>). Its source is missing; the spec's data model
  says it holds content, CSS classes, inline style and a size, and wraps the surface
  (\<^verbatim>\<open>_surface\<close>). A property that may be \<^verbatim>\<open>undefined\<close> is an \<open>option\<close>.
\<close>

record uielement =
  content :: "string option"
  classes :: "string list option"
  style :: "css option"
  element_size :: dims
  surface :: surface

text \<open>
  Modelled from the spec: the constructor of \<^verbatim>\<open>UIElement\<close> is missing. The new element
  holds the content, classes and style it is given, has no size requested yet, and wraps
  the fresh platform surface \<open>s\<close>, which the caller of the model supplies.
\<close>

definition UIElement_new ::
    "surface \<Rightarrow> string option \<Rightarrow> string list option \<Rightarrow> css option \<Rightarrow> uielement" where
  "UIElement_new s c cl st =
     \<lparr>content = c, classes = cl, style = st, element_size = [], surface = s\<rparr>"

text \<open>
  Modelled from the spec: the setters and getters of \<^verbatim>\<open>UIElement\<close> are missing. The spec
  names them as the child element's contract (\<^verbatim>\<open>setSize\<close>, \<^verbatim>\<open>setClasses\<close>,
  \<^verbatim>\<open>setStyle\<close>, \<^verbatim>\<open>setContent\<close>, \<^verbatim>\<open>getContent\<close>, \<^verbatim>\<open>getStyle\<close>); each setter
  is modelled as storing its argument in the element and each getter as reading it back.
\<close>

definition UIElement_setSize :: "dims \<Rightarrow> uielement \<Rightarrow> uielement" where
  "UIElement_setSize sz e = e\<lparr>element_size := sz\<rparr>"

definition UIElement_setContent :: "string option \<Rightarrow> uielement \<Rightarrow> uielement" where
  "UIElement_setContent c e = e\<lparr>content := c\<rparr>"

definition UIElement_getContent :: "uielement \<Rightarrow> string option" where
  "UIElement_getContent e = content e"

definition UIElement_setClasses :: "string list \<Rightarrow> uielement \<Rightarrow> uielement" where
  "UIElement_setClasses cl e = e\<lparr>classes := Some cl\<rparr>"

definition UIElement_setStyle :: "css \<Rightarrow> uielement \<Rightarrow> uielement" where
  "UIElement_setStyle st e = e\<lparr>style := Some st\<rparr>"

definition UIElement_getStyle :: "uielement \<Rightarrow> css option" where
  "UIElement_getStyle e = style e"

subsection \<open>The label and its state\<close>

text \<open>
  The constructor's argument. \<^verbatim>\<open>size\<close> is tested for truthiness only; an array, even an
  empty one, is truthy, so \<open>Some\<close> is "given" and \<open>None\<close> is \<^verbatim>\<open>undefined\<close>.
\<close>

record options =
  opt_text :: "string option"
  opt_classes :: "string list option"
  opt_style :: "css option"
  opt_size :: "dims option"

text \<open>
  The fields the label itself assigns: \<^verbatim>\<open>_size\<close>, \<^verbatim>\<open>_measuredSize\<close>, \<^verbatim>\<open>_text\<close> and
  \<^verbatim>\<open>_element\<close>. The element is an \<open>option\<close> because \<^verbatim>\<open>setSize\<close> tests it:
  \<^verbatim>\<open>if (!this._element) return;\<close>.
\<close>

record label =
  label_size :: dims
  label_measuredSize :: bool
  label_text :: "string option"
  label_element :: "uielement option"

text \<open>
  What the label does to its collaborators, in order: every write to the child element
  or to its surface, every value handed to the size state of the component base class
  (\<^verbatim>\<open>_sizeState.set\<close>), and every notification emitted. The payload of a notification is
  the label (\<^verbatim>\<open>self\<close>); a listener sees the label as it is when the notification is
  emitted, so the entry carries the label's fields at that moment.
\<close>

datatype call =
    MarkDirty
  | SurfaceSetSize dims
  | ElementSetSize dims
  | ElementSetContent "string option"
  | ElementSetClasses "string list"
  | ElementSetStyle css
  | SizeStateSet dims
  | Emit string label

record world =
  self :: label
  calls :: "call list"

text \<open>Sequencing of calls that may throw: the first exception ends the method.\<close>

definition bind :: "error + 'a \<Rightarrow> ('a \<Rightarrow> error + 'b) \<Rightarrow> error + 'b" where
  "bind m f = (case m of Inl e \<Rightarrow> Inl e | Inr x \<Rightarrow> f x)"

text \<open>
  A write \<open>f\<close> to \<^verbatim>\<open>this._element\<close>, recorded as \<open>c\<close>. Reaching into an element that is
  \<^verbatim>\<open>undefined\<close> throws.
\<close>

definition on_element :: "(uielement \<Rightarrow> uielement) \<Rightarrow> call \<Rightarrow> world \<Rightarrow> error + world" where
  "on_element f c w =
     (case label_element (self w) of
        None \<Rightarrow> Inl TypeError
      | Some e \<Rightarrow> Inr (w\<lparr>self := (self w)\<lparr>label_element := Some (f e)\<rparr>,
                         calls := calls w @ [c]\<rparr>))"

text \<open>The same for a write to \<^verbatim>\<open>this._element._surface\<close>.\<close>

definition on_surface :: "(surface \<Rightarrow> surface) \<Rightarrow> call \<Rightarrow> world \<Rightarrow> error + world" where
  "on_surface f c w = on_element (\<lambda>e. e\<lparr>surface := f (surface e)\<rparr>) c w"

text \<open>
  Modelled from the spec: \<^verbatim>\<open>emit\<close> and \<^verbatim>\<open>_sizeState\<close> come from the component base class
  \<^verbatim>\<open>core/UIComponent\<close>, which is missing. The spec describes \<^verbatim>\<open>sizeChange(self)\<close> as a
  notification to outside listeners; both calls are recorded and change no field of the
  label.
\<close>

definition emit :: "string \<Rightarrow> world \<Rightarrow> world" where
  "emit name w = w\<lparr>calls := calls w @ [Emit name (self w)]\<rparr>"

definition sizeState_set :: "dims \<Rightarrow> world \<Rightarrow> world" where
  "sizeState_set sz w = w\<lparr>calls := calls w @ [SizeStateSet sz]\<rparr>"

text \<open>
  Modelled from the spec: the base constructor (\<^verbatim>\<open>_callSuper(UIComponent, 'constructor',
  options)\<close>) is missing; it leaves the options in \<^verbatim>\<open>this.options\<close>. The spec's options
  have no default size, so \<^verbatim>\<open>this.options\<close> is the argument.
\<close>

definition this_options :: "options \<Rightarrow> options" where
  "this_options opts = opts"

subsection \<open>The methods\<close>

text \<open>\<^verbatim>\<open>_invalidateSurface\<close>: \<^verbatim>\<open>this._element._surface._contentDirty = true\<close>.\<close>

definition invalidateSurface :: "world \<Rightarrow> error + world" where
  "invalidateSurface w = on_surface (\<lambda>s. s\<lparr>contentDirty := True\<rparr>) MarkDirty w"

text \<open>
  The constructor. Reading \<^verbatim>\<open>options.text\<close> throws when no argument is passed. The new
  element is asked for the size \<^verbatim>\<open>[true, true]\<close> and then, when a size option is given,
  for that size. \<^verbatim>\<open>_addChild\<close> and \<^verbatim>\<open>_bindEvents\<close> register the element and the deploy
  handler with the framework; the handler is \<open>deploy_handler\<close> below.
\<close>

definition constructor :: "surface \<Rightarrow> options option \<Rightarrow> error + world" where
  "constructor s arg =
     (case arg of
        None \<Rightarrow> Inl TypeError
      | Some opts \<Rightarrow>
          let l = \<lparr>label_size = [],
                   label_measuredSize = (case opt_size (this_options opts) of
                                           Some _ \<Rightarrow> False | None \<Rightarrow> True),
                   label_text = opt_text opts,
                   label_element = None\<rparr>;
              e = UIElement_new s (label_text l)
                    (opt_classes (this_options opts)) (opt_style (this_options opts));
              w = \<lparr>self = l\<lparr>label_element := Some e\<rparr>, calls = []\<rparr>
          in bind (on_element (UIElement_setSize [Auto, Auto]) (ElementSetSize [Auto, Auto]) w)
               (\<lambda>w1. case opt_size (this_options opts) of
                        Some sz \<Rightarrow> on_element (UIElement_setSize sz) (ElementSetSize sz) w1
                      | None \<Rightarrow> Inr w1))"

text \<open>
  \<^verbatim>\<open>_readSize\<close>: the two entries of \<^verbatim>\<open>_size\<close> are assigned from the node the surface is
  attached to. Reading \<^verbatim>\<open>clientWidth\<close> of \<^verbatim>\<open>null\<close> throws.
\<close>

definition readSize :: "world \<Rightarrow> error + world" where
  "readSize w =
     (case label_element (self w) of
        None \<Rightarrow> Inl TypeError
      | Some e \<Rightarrow>
          (case currentTarget (surface e) of
             None \<Rightarrow> Inl TypeError
           | Some t \<Rightarrow>
               let s0 = array_set (label_size (self w)) 0 (Num (clientWidth t));
                   s1 = array_set s0 1 (Num (clientHeight t))
               in Inr (w\<lparr>self := (self w)\<lparr>label_size := s1\<rparr>\<rparr>)))"

text \<open>
  The handler that \<^verbatim>\<open>_bindEvents\<close> registers for the element's \<^verbatim>\<open>deploy\<close> event. The
  comparison \<^verbatim>\<open>!==\<close> of two strings, or of a string and \<^verbatim>\<open>undefined\<close>, is inequality of
  values.
\<close>

definition deploy_handler :: "world \<Rightarrow> error + world" where
  "deploy_handler w =
     bind (readSize w) (\<lambda>w1.
       let w2 = sizeState_set (label_size (self w1)) w1 in
       (case label_element (self w2) of
          None \<Rightarrow> Inl TypeError
        | Some e \<Rightarrow>
            bind (if UIElement_getContent e \<noteq> label_text (self w2)
                  then on_element (UIElement_setContent (label_text (self w2)))
                         (ElementSetContent (label_text (self w2))) w2
                  else Inr w2)
              (\<lambda>w3. Inr (emit ''sizeChange'' w3))))"

text \<open>
  Modelled from the spec: a deploy event. The platform, an external collaborator, has
  attached the surface to a node that reports the width \<open>cw\<close> and the height \<open>ch\<close>, and
  fires \<^verbatim>\<open>deploy\<close> on the element, which runs the handler.
\<close>

definition deploy_event :: "int \<Rightarrow> int \<Rightarrow> world \<Rightarrow> error + world" where
  "deploy_event cw ch w =
     (case label_element (self w) of
        None \<Rightarrow> Inl TypeError
      | Some e \<Rightarrow>
          deploy_handler
            (w\<lparr>self := (self w)\<lparr>label_element :=
                 Some (e\<lparr>surface := (surface e)\<lparr>currentTarget :=
                   Some \<lparr>clientWidth = cw, clientHeight = ch\<rparr>\<rparr>\<rparr>)\<rparr>\<rparr>))"

text \<open>
  The getters return their value together with the state they leave. \<^verbatim>\<open>getSize\<close>:
  \<^verbatim>\<open>this._size.slice(0)\<close>, a new array with the entries of \<^verbatim>\<open>_size\<close>.
\<close>

definition getSize :: "world \<Rightarrow> dims \<times> world" where
  "getSize w = (label_size (self w), w)"

text \<open>
  \<^verbatim>\<open>setSize\<close>: nothing happens while there is no element; otherwise the surface is
  marked stale, its own size is cleared, the element is asked for the size, and the label
  leaves measuring mode. The value returned to the caller (\<^verbatim>\<open>this\<close>, or \<^verbatim>\<open>undefined\<close> on
  the early return) carries no state and is left out; so are the values \<^verbatim>\<open>setClasses\<close>
  and \<^verbatim>\<open>setStyle\<close> pass on from the element.
\<close>

definition setSize :: "dims \<Rightarrow> world \<Rightarrow> error + world" where
  "setSize sz w =
     (case label_element (self w) of
        None \<Rightarrow> Inr w
      | Some _ \<Rightarrow>
          bind (invalidateSurface w) (\<lambda>w1.
          bind (on_surface (Surface_setSize [Undefined, Undefined])
                  (SurfaceSetSize [Undefined, Undefined]) w1) (\<lambda>w2.
          bind (on_element (UIElement_setSize sz) (ElementSetSize sz) w2) (\<lambda>w3.
          Inr (w3\<lparr>self := (self w3)\<lparr>label_measuredSize := False\<rparr>\<rparr>)))))"

text \<open>\<^verbatim>\<open>setAutoSize\<close>: returns at once when the label is already measuring.\<close>

definition setAutoSize :: "world \<Rightarrow> error + world" where
  "setAutoSize w =
     (if label_measuredSize (self w) then Inr w
      else
        bind (invalidateSurface w) (\<lambda>w1.
        bind (on_surface (Surface_setSize [Auto, Auto]) (SurfaceSetSize [Auto, Auto]) w1) (\<lambda>w2.
        Inr (w2\<lparr>self := (self w2)\<lparr>label_measuredSize := True\<rparr>\<rparr>))))"

text \<open>\<^verbatim>\<open>setClasses\<close> and \<^verbatim>\<open>setStyle\<close>: mark the surface stale, then forward.\<close>

definition setClasses :: "string list \<Rightarrow> world \<Rightarrow> error + world" where
  "setClasses cl w =
     bind (invalidateSurface w)
       (on_element (UIElement_setClasses cl) (ElementSetClasses cl))"

definition setStyle :: "css \<Rightarrow> world \<Rightarrow> error + world" where
  "setStyle st w =
     bind (invalidateSurface w)
       (on_element (UIElement_setStyle st) (ElementSetStyle st))"

text \<open>\<^verbatim>\<open>getStyle\<close>: \<^verbatim>\<open>this._element.getStyle()\<close>.\<close>

definition getStyle :: "world \<Rightarrow> error + (css option \<times> world)" where
  "getStyle w =
     (case label_element (self w) of
        None \<Rightarrow> Inl TypeError
      | Some e \<Rightarrow> Inr (UIElement_getStyle e, w))"

text \<open>
  \<^verbatim>\<open>setText\<close>: the text is stored first, then the surface is marked stale and the text
  is forwarded to the element.
\<close>

definition setText :: "string \<Rightarrow> world \<Rightarrow> error + world" where
  "setText t w =
     (let w0 = w\<lparr>self := (self w)\<lparr>label_text := Some t\<rparr>\<rparr> in
      bind (invalidateSurface w0)
        (on_element (UIElement_setContent (Some t)) (ElementSetContent (Some t))))"

definition getText :: "world \<Rightarrow> string option \<times> world" where
  "getText w = (label_text (self w), w)"

subsection \<open>Histories of a label\<close>

text \<open>The operations a client or the platform can perform on a constructed label.\<close>

datatype op =
    SetSize dims
  | SetAutoSize
  | SetClasses "string list"
  | SetStyle css
  | SetText string
  | GetSize
  | GetStyle
  | GetText
  | Deploy int int

fun step :: "op \<Rightarrow> world \<Rightarrow> error + world" where
  "step (SetSize sz) w = setSize sz w"
| "step SetAutoSize w = setAutoSize w"
| "step (SetClasses cl) w = setClasses cl w"
| "step (SetStyle st) w = setStyle st w"
| "step (SetText t) w = setText t w"
| "step GetSize w = Inr (snd (getSize w))"
| "step GetStyle w = bind (getStyle w) (\<lambda>r. Inr (snd r))"
| "step GetText w = Inr (snd (getText w))"
| "step (Deploy cw ch) w = deploy_event cw ch w"

fun run :: "op list \<Rightarrow> world \<Rightarrow> error + world" where
  "run [] w = Inr w"
| "run (x # xs) w = bind (step x w) (run xs)"

text \<open>A label constructed from \<open>opts\<close> over the surface \<open>s\<close>, then used as \<open>ops\<close> says.\<close>

definition lifecycle :: "surface \<Rightarrow> options \<Rightarrow> op list \<Rightarrow> error + world" where
  "lifecycle s opts ops = bind (constructor s (Some opts)) (run ops)"

text \<open>
  The spec's reading of the sizing mode, from the history alone: the label is measuring
  iff the last size-affecting call was \<^verbatim>\<open>setAutoSize\<close>, or there was none and the label
  was constructed without an explicit size; a later \<^verbatim>\<open>setSize\<close> ends it.
\<close>

fun size_affecting :: "op \<Rightarrow> bool" where
  "size_affecting (SetSize _) = True"
| "size_affecting SetAutoSize = True"
| "size_affecting _ = False"

definition spec_measuring :: "options \<Rightarrow> op list \<Rightarrow> bool" where
  "spec_measuring opts ops =
     (case rev (filter size_affecting ops) of
        [] \<Rightarrow> opt_size opts = None
      | x # _ \<Rightarrow> x = SetAutoSize)"

text \<open>The notifications and the content writes among a sequence of calls.\<close>

fun is_emit :: "call \<Rightarrow> bool" where
  "is_emit (Emit _ _) = True"
| "is_emit _ = False"

fun is_setContent :: "call \<Rightarrow> bool" where
  "is_setContent (ElementSetContent _) = True"
| "is_setContent _ = False"

text \<open>The calls made between the state \<open>w\<close> and the later state \<open>w'\<close>.\<close>

definition calls_since :: "world \<Rightarrow> world \<Rightarrow> call list" where
  "calls_since w w' = drop (length (calls w)) (calls w')"

text \<open>
  The shape the code keeps a label in after construction: the element exists and
  \<^verbatim>\<open>_size\<close> is empty or a pair.
\<close>

definition label_ok :: "world \<Rightarrow> bool" where
  "label_ok w \<longleftrightarrow>
     label_element (self w) \<noteq> None \<and> length (label_size (self w)) \<le> 2"

text \<open>Example states for the concrete instances below.\<close>

definition example_surface :: surface where
  "example_surface = \<lparr>contentDirty = False, surface_size = [], currentTarget = None\<rparr>"

definition example_options :: options where
  "example_options = \<lparr>opt_text = Some ''Layouts'', opt_classes = Some [''ui-label''],
     opt_style = Some [(''color'', ''red'')], opt_size = None\<rparr>"

definition example_element :: uielement where
  "example_element =
     \<lparr>content = Some ''Layout'', classes = Some [''ui-label''],
        style = Some [(''color'', ''red'')], element_size = [Num 100, Num 50],
        surface = \<lparr>contentDirty = False, surface_size = [Undefined, Undefined],
          currentTarget = Some \<lparr>clientWidth = 120, clientHeight = 40\<rparr>\<rparr>\<rparr>"

definition example_world :: world where
  "example_world =
     \<lparr>self = \<lparr>label_size = [], label_measuredSize = False, label_text = Some ''Layouts'',
        label_element = Some example_element\<rparr>,
      calls = []\<rparr>"

definition example_options_sized :: options where
  "example_options_sized = example_options\<lparr>opt_size := Some [Num 100, Num 50]\<rparr>"

text \<open>The same state with a stored text that agrees with the element's content.\<close>

definition example_world_agreeing :: world where
  "example_world_agreeing =
     example_world\<lparr>self := (self example_world)\<lparr>label_text := Some ''Layout''\<rparr>\<rparr>"

section \<open>Properties\<close>

subsection \<open>What each method does when the element exists\<close>

lemma bind_Inr [simp]: "bind (Inr x) f = f x"
  by (simp add: bind_def)

lemma bind_Inl [simp]: "bind (Inl e) f = Inl e"
  by (simp add: bind_def)

lemma on_element_Some:
  "label_element (self w) = Some e \<Longrightarrow>
   on_element f c w =
     Inr (w\<lparr>self := (self w)\<lparr>label_element := Some (f e)\<rparr>, calls := calls w @ [c]\<rparr>)"
  by (simp add: on_element_def)

lemma on_surface_Some:
  "label_element (self w) = Some e \<Longrightarrow>
   on_surface f c w =
     Inr (w\<lparr>self := (self w)\<lparr>label_element := Some (e\<lparr>surface := f (surface e)\<rparr>)\<rparr>,
            calls := calls w @ [c]\<rparr>)"
  by (simp add: on_surface_def on_element_Some)

lemma invalidateSurface_Some:
  "label_element (self w) = Some e \<Longrightarrow>
   invalidateSurface w =
     Inr (w\<lparr>self := (self w)\<lparr>label_element :=
               Some (e\<lparr>surface := (surface e)\<lparr>contentDirty := True\<rparr>\<rparr>)\<rparr>,
            calls := calls w @ [MarkDirty]\<rparr>)"
  by (simp add: invalidateSurface_def on_surface_Some)

lemma setSize_Some:
  "label_element (self w) = Some e \<Longrightarrow>
   setSize sz w =
     Inr (w\<lparr>self := (self w)\<lparr>label_measuredSize := False, label_element :=
               Some (e\<lparr>surface := (surface e)\<lparr>contentDirty := True,
                         surface_size := [Undefined, Undefined]\<rparr>,
                       element_size := sz\<rparr>)\<rparr>,
            calls := calls w @ [MarkDirty, SurfaceSetSize [Undefined, Undefined],
                       ElementSetSize sz]\<rparr>)"
  by (simp add: setSize_def invalidateSurface_Some on_surface_Some on_element_Some
      Surface_setSize_def UIElement_setSize_def)

lemma setAutoSize_Some:
  "label_element (self w) = Some e \<Longrightarrow>
   setAutoSize w =
     (if label_measuredSize (self w) then Inr w
      else Inr (w\<lparr>self := (self w)\<lparr>label_measuredSize := True, label_element :=
               Some (e\<lparr>surface := (surface e)\<lparr>contentDirty := True,
                         surface_size := [Auto, Auto]\<rparr>\<rparr>)\<rparr>,
            calls := calls w @ [MarkDirty, SurfaceSetSize [Auto, Auto]]\<rparr>))"
  by (simp add: setAutoSize_def invalidateSurface_Some on_surface_Some Surface_setSize_def)

lemma setClasses_Some:
  "label_element (self w) = Some e \<Longrightarrow>
   setClasses cl w =
     Inr (w\<lparr>self := (self w)\<lparr>label_element :=
               Some (e\<lparr>surface := (surface e)\<lparr>contentDirty := True\<rparr>,
                       classes := Some cl\<rparr>)\<rparr>,
            calls := calls w @ [MarkDirty, ElementSetClasses cl]\<rparr>)"
  by (simp add: setClasses_def invalidateSurface_Some on_element_Some UIElement_setClasses_def)

lemma setStyle_Some:
  "label_element (self w) = Some e \<Longrightarrow>
   setStyle st w =
     Inr (w\<lparr>self := (self w)\<lparr>label_element :=
               Some (e\<lparr>surface := (surface e)\<lparr>contentDirty := True\<rparr>,
                       style := Some st\<rparr>)\<rparr>,
            calls := calls w @ [MarkDirty, ElementSetStyle st]\<rparr>)"
  by (simp add: setStyle_def invalidateSurface_Some on_element_Some UIElement_setStyle_def)

lemma setText_Some:
  "label_element (self w) = Some e \<Longrightarrow>
   setText t w =
     Inr (w\<lparr>self := (self w)\<lparr>label_text := Some t, label_element :=
               Some (e\<lparr>surface := (surface e)\<lparr>contentDirty := True\<rparr>,
                       content := Some t\<rparr>)\<rparr>,
            calls := calls w @ [MarkDirty, ElementSetContent (Some t)]\<rparr>)"
  by (simp add: setText_def Let_def invalidateSurface_Some on_element_Some
      UIElement_setContent_def)

lemma constructor_result:
  "constructor s (Some opts) =
     Inr \<lparr>self = \<lparr>label_size = [], label_measuredSize = (opt_size opts = None),
              label_text = opt_text opts,
              label_element = Some \<lparr>content = opt_text opts, classes = opt_classes opts,
                style = opt_style opts,
                element_size = (case opt_size opts of Some sz \<Rightarrow> sz | None \<Rightarrow> [Auto, Auto]),
                surface = s\<rparr>\<rparr>,
           calls = ElementSetSize [Auto, Auto] #
             (case opt_size opts of Some sz \<Rightarrow> [ElementSetSize sz] | None \<Rightarrow> [])\<rparr>"
  by (cases "opt_size opts")
    (simp_all add: constructor_def this_options_def Let_def UIElement_new_def on_element_def
      UIElement_setSize_def)

subsection \<open>The deploy handler\<close>

text \<open>Two assignments turn an empty array, or a pair, into the pair assigned.\<close>

lemma array_set_pair:
  assumes "length xs \<le> 2"
  shows "array_set (array_set xs 0 a) (Suc 0) b = [a, b]"
proof (cases xs)
  case Nil
  then show ?thesis by (simp add: array_set_def)
next
  case (Cons x ys)
  with assms have "length ys \<le> 1" by simp
  then have "ys = [] \<or> (\<exists>y. ys = [y])" by (cases ys) auto
  with Cons show ?thesis by (auto simp: array_set_def)
qed

text \<open>
  The handler on an attached surface, in one step: the new \<^verbatim>\<open>_size\<close>, the element's
  content, and the calls made, in order.
\<close>

lemma deploy_handler_result:
  assumes "label_element (self w) = Some e" and "currentTarget (surface e) = Some t"
  shows "deploy_handler w =
     (let sz = array_set (array_set (label_size (self w)) 0 (Num (clientWidth t))) 1
                 (Num (clientHeight t));
          differs = (content e \<noteq> label_text (self w));
          l = (self w)\<lparr>label_size := sz,
                label_element :=
                  Some (if differs then e\<lparr>content := label_text (self w)\<rparr> else e)\<rparr>
      in Inr \<lparr>self = l,
             calls = calls w @ [SizeStateSet sz]
               @ (if differs then [ElementSetContent (label_text (self w))] else [])
               @ [Emit ''sizeChange'' l]\<rparr>)"
  using assms
  by (simp add: deploy_handler_def readSize_def sizeState_set_def Let_def on_element_def
      emit_def UIElement_getContent_def UIElement_setContent_def)

lemma deploy_event_result:
  assumes "label_element (self w) = Some e"
  shows "deploy_event cw ch w =
     deploy_handler (w\<lparr>self := (self w)\<lparr>label_element :=
        Some (e\<lparr>surface := (surface e)\<lparr>currentTarget :=
          Some \<lparr>clientWidth = cw, clientHeight = ch\<rparr>\<rparr>\<rparr>)\<rparr>\<rparr>)"
  using assms by (simp add: deploy_event_def)

text \<open>
  C1. On a label whose surface is attached to a node reporting the dimensions
  \<open>(cw, ch)\<close>, for instance \<open>(120, 40)\<close>, the deploy handler returns; afterwards
  \<^verbatim>\<open>getSize()\<close> is the pair \<open>[cw, ch]\<close>, and among the calls the handler made there is
  exactly one notification, \<^verbatim>\<open>sizeChange\<close>, whose payload is the label as the handler
  leaves it. The stored size is empty or a pair, as it is in every label the constructor
  made (\<open>lifecycle_label_ok\<close>).
\<close>

theorem deploy_measures_and_notifies_once:
  assumes "label_element (self w) = Some e"
    and "currentTarget (surface e) = Some \<lparr>clientWidth = cw, clientHeight = ch\<rparr>"
    and "length (label_size (self w)) \<le> 2"
  shows "\<exists>w'. deploy_handler w = Inr w'
           \<and> fst (getSize w') = [Num cw, Num ch]
           \<and> calls w' = calls w @ calls_since w w'
           \<and> filter is_emit (calls_since w w') = [Emit ''sizeChange'' (self w')]"
  unfolding deploy_handler_result [OF assms(1,2)]
  using assms(3) by (simp add: Let_def getSize_def calls_since_def array_set_pair)

theorem deploy_measures_and_notifies_once_witness:
  "\<exists>w'. deploy_handler example_world = Inr w'
      \<and> fst (getSize w') = [Num 120, Num 40]
      \<and> calls w' = calls example_world @ calls_since example_world w'
      \<and> filter is_emit (calls_since example_world w') = [Emit ''sizeChange'' (self w')]"
proof -
  let ?e = "\<lparr>content = Some ''Layout'', classes = Some [''ui-label''],
          style = Some [(''color'', ''red'')], element_size = [Num 100, Num 50],
          surface = \<lparr>contentDirty = False, surface_size = [Undefined, Undefined],
            currentTarget = Some \<lparr>clientWidth = 120, clientHeight = 40\<rparr>\<rparr>\<rparr>"
  have a: "label_element (self example_world) = Some ?e"
    and b: "currentTarget (surface ?e) = Some \<lparr>clientWidth = 120, clientHeight = 40\<rparr>"
    and c: "length (label_size (self example_world)) \<le> 2"
    by (simp_all add: example_world_def example_element_def)
  show ?thesis
    using deploy_measures_and_notifies_once [OF a b c] .
qed

text \<open>
  C6. When the deploy handler runs on an attached surface and the content the element
  returns differs from the stored text, the handler applies the stored text to the
  element's content, and does so exactly once: afterwards the element is the old one
  with \<^verbatim>\<open>setContent(_text)\<close> applied, so its content is the stored text, and the calls
  the handler made hold one content write, of the stored text. When the two agree the
  handler makes no content write and leaves the element as it was. The stored text is
  the same before and after in both cases.
\<close>

theorem deploy_reapplies_text_once:
  assumes "label_element (self w) = Some e" and "currentTarget (surface e) = Some t"
  shows "\<exists>w' e'. deploy_handler w = Inr w'
           \<and> label_text (self w') = label_text (self w)
           \<and> label_element (self w') = Some e'
           \<and> e' = (if UIElement_getContent e \<noteq> label_text (self w)
                    then UIElement_setContent (label_text (self w)) e else e)
           \<and> UIElement_getContent e' = label_text (self w)
           \<and> calls w' = calls w @ calls_since w w'
           \<and> filter is_setContent (calls_since w w') =
               (if UIElement_getContent e \<noteq> label_text (self w)
                then [ElementSetContent (label_text (self w))] else [])"
  unfolding deploy_handler_result [OF assms]
  by (simp add: Let_def calls_since_def UIElement_getContent_def UIElement_setContent_def)

theorem deploy_reapplies_text_once_witness:
  "(\<exists>w' e'. deploy_handler example_world = Inr w'
      \<and> label_text (self w') = Some ''Layouts''
      \<and> label_element (self example_world) = Some example_element
      \<and> content example_element = Some ''Layout''
      \<and> label_element (self w') = Some e'
      \<and> e' = example_element\<lparr>content := Some ''Layouts''\<rparr>
      \<and> UIElement_getContent e' = Some ''Layouts''
      \<and> calls w' = calls example_world @ calls_since example_world w'
      \<and> filter is_setContent (calls_since example_world w') =
          [ElementSetContent (Some ''Layouts'')])
   \<and> (\<exists>w' e'. deploy_handler example_world_agreeing = Inr w'
      \<and> label_text (self w') = Some ''Layout''
      \<and> label_element (self w') = Some e'
      \<and> e' = example_element
      \<and> UIElement_getContent e' = Some ''Layout''
      \<and> calls w' = calls example_world_agreeing @ calls_since example_world_agreeing w'
      \<and> filter is_setContent (calls_since example_world_agreeing w') = [])"
proof -
  let ?t = "\<lparr>clientWidth = 120, clientHeight = 40\<rparr>"
  have a: "label_element (self example_world) = Some example_element"
    and b: "label_element (self example_world_agreeing) = Some example_element"
    and c: "currentTarget (surface example_element) = Some ?t"
    by (simp_all add: example_world_def example_world_agreeing_def example_element_def)
  have d: "content example_element = Some ''Layout''"
    "label_text (self example_world) = Some ''Layouts''"
    "label_text (self example_world_agreeing) = Some ''Layout''"
    by (simp_all add: example_world_def example_world_agreeing_def example_element_def)
  show ?thesis
    using deploy_reapplies_text_once [OF a c] deploy_reapplies_text_once [OF b c] a d
    by (simp add: UIElement_getContent_def UIElement_setContent_def)
qed

subsection \<open>Size requests\<close>

text \<open>
  C3. On a label with its element, \<^verbatim>\<open>setSize(sz)\<close> returns, and a \<^verbatim>\<open>getSize()\<close> right
  after it returns what \<^verbatim>\<open>getSize()\<close> returned before: \<^verbatim>\<open>_size\<close> is not written. The
  requested size is recorded on the child element: it is the element's size, and the
  last call the label made is the element's \<^verbatim>\<open>setSize\<close> with that size.
\<close>

theorem setSize_keeps_stored_size:
  assumes "label_element (self w) = Some e"
  shows "\<exists>w' e'. setSize sz w = Inr w'
           \<and> fst (getSize w') = fst (getSize w)
           \<and> label_size (self w') = label_size (self w)
           \<and> label_element (self w') = Some e' \<and> element_size e' = sz
           \<and> last (calls w') = ElementSetSize sz"
  by (simp add: setSize_Some [OF assms] getSize_def)

theorem setSize_keeps_stored_size_witness:
  "\<exists>w' e'. setSize [Num 100, Num 50] example_world = Inr w'
           \<and> fst (getSize w') = fst (getSize example_world)
           \<and> label_size (self w') = label_size (self example_world)
           \<and> label_element (self w') = Some e' \<and> element_size e' = [Num 100, Num 50]
           \<and> last (calls w') = ElementSetSize [Num 100, Num 50]"
proof -
  have "\<exists>e. label_element (self example_world) = Some e"
    by (simp add: example_world_def)
  then obtain e where e: "label_element (self example_world) = Some e" ..
  show ?thesis
    using setSize_keeps_stored_size [OF e, of "[Num 100, Num 50]"] .
qed

text \<open>
  C4. When a call of \<^verbatim>\<open>setAutoSize()\<close> returns, a second call right after it returns
  the state it was given: no field of the label, of the element or of the surface is
  written (the stale flag and the surface's size included), and no call is made.
\<close>

theorem setAutoSize_twice:
  assumes "setAutoSize w = Inr w1"
  shows "setAutoSize w1 = Inr w1"
proof (cases "label_measuredSize (self w)")
  case True
  with assms show ?thesis by (simp add: setAutoSize_def)
next
  case False
  with assms obtain e where e: "label_element (self w) = Some e"
    by (cases "label_element (self w)")
      (auto simp: setAutoSize_def invalidateSurface_def on_surface_def on_element_def)
  from assms False have "label_measuredSize (self w1)"
    by (auto simp: setAutoSize_Some [OF e])
  then show ?thesis by (simp add: setAutoSize_def)
qed

theorem setAutoSize_twice_witness:
  "\<exists>w1. setAutoSize example_world = Inr w1 \<and> w1 \<noteq> example_world
      \<and> setAutoSize w1 = Inr w1"
proof -
  have "\<exists>w1. setAutoSize example_world = Inr w1 \<and> w1 \<noteq> example_world"
    by (simp add: example_world_def setAutoSize_def invalidateSurface_def on_surface_def
        on_element_def Surface_setSize_def)
  then obtain w1 where w1: "setAutoSize example_world = Inr w1"
    and ne: "w1 \<noteq> example_world"
    by blast
  from setAutoSize_twice [OF w1] w1 ne show ?thesis by blast
qed

subsection \<open>Text\<close>

text \<open>
  C5. On a label with its element, \<^verbatim>\<open>setText(t)\<close> returns and \<^verbatim>\<open>getText()\<close> right after
  it returns \<open>t\<close>; no deploy event is involved.
\<close>

theorem setText_then_getText:
  assumes "label_element (self w) = Some e"
  shows "\<exists>w'. setText t w = Inr w' \<and> fst (getText w') = Some t"
  by (simp add: setText_Some [OF assms] getText_def)

theorem setText_then_getText_witness:
  "\<exists>w'. setText ''A'' example_world = Inr w' \<and> fst (getText w') = Some ''A''"
proof -
  have "\<exists>e. label_element (self example_world) = Some e"
    by (simp add: example_world_def)
  then obtain e where e: "label_element (self example_world) = Some e" ..
  show ?thesis
    using setText_then_getText [OF e, of "''A''"] .
qed

subsection \<open>Construction\<close>

text \<open>
  C7. Construction from an options object returns. With a size option the label is not
  measuring and the child element's size is the given one; without a size option the
  label is measuring.
\<close>

theorem constructor_sizing_mode:
  "(opt_size opts = Some sz \<longrightarrow>
      (\<exists>w e. constructor s (Some opts) = Inr w \<and> \<not> label_measuredSize (self w)
         \<and> label_element (self w) = Some e \<and> element_size e = sz))
   \<and> (opt_size opts = None \<longrightarrow>
      (\<exists>w. constructor s (Some opts) = Inr w \<and> label_measuredSize (self w)))"
  by (simp add: constructor_result)

theorem constructor_sizing_mode_witness:
  "(\<exists>w e. constructor example_surface (Some example_options_sized) = Inr w
      \<and> \<not> label_measuredSize (self w)
      \<and> label_element (self w) = Some e \<and> element_size e = [Num 100, Num 50])
   \<and> (\<exists>w. constructor example_surface (Some example_options) = Inr w
      \<and> label_measuredSize (self w))"
proof -
  have a: "opt_size example_options_sized = Some [Num 100, Num 50]"
    by (simp add: example_options_sized_def)
  have b: "opt_size example_options = None"
    by (simp add: example_options_def)
  from constructor_sizing_mode [of example_options_sized "[Num 100, Num 50]" example_surface]
    constructor_sizing_mode [of example_options "[]" example_surface] a b
  show ?thesis by blast
qed

text \<open>
  C9. Right after construction, with or without a size option, \<^verbatim>\<open>getSize()\<close> returns
  the empty array.
\<close>

theorem getSize_empty_after_construction:
  "\<exists>w. constructor s (Some opts) = Inr w
      \<and> fst (getSize w) = [] \<and> length (fst (getSize w)) = 0"
  by (simp add: constructor_result getSize_def)

subsection \<open>Getters\<close>

text \<open>
  C8. \<^verbatim>\<open>getSize()\<close> returns the entries of the stored size and leaves the state as it
  was, so a second call returns the same entries.
\<close>

theorem getSize_returns_stored_size:
  "fst (getSize w) = label_size (self w) \<and> snd (getSize w) = w
   \<and> fst (getSize (snd (getSize w))) = fst (getSize w)"
  by (simp add: getSize_def)

text \<open>
  C10. \<^verbatim>\<open>getText()\<close> and, when it returns, \<^verbatim>\<open>getStyle()\<close> leave the state as it was:
  every field of the label, of the element and of its surface, the stale flag included,
  and the record of calls.
\<close>

theorem getters_change_nothing:
  "snd (getText w) = w \<and> (\<forall>r w'. getStyle w = Inr (r, w') \<longrightarrow> w' = w)"
  by (auto simp: getText_def getStyle_def split: option.splits)

theorem getters_change_nothing_witness:
  "snd (getText example_world) = example_world
   \<and> getStyle example_world = Inr (Some [(''color'', ''red'')], example_world)"
proof -
  have "\<exists>w'. getStyle example_world = Inr (Some [(''color'', ''red'')], w')"
    by (simp add: getStyle_def example_world_def example_element_def UIElement_getStyle_def)
  then obtain w' where w': "getStyle example_world = Inr (Some [(''color'', ''red'')], w')" ..
  from getters_change_nothing [of example_world] w' show ?thesis by auto
qed

subsection \<open>The sizing mode along a history\<close>

lemma step_measuring:
  assumes "label_ok w"
  shows "\<exists>w'. step x w = Inr w' \<and> label_ok w'
           \<and> label_measuredSize (self w') =
               (case x of SetSize _ \<Rightarrow> False | SetAutoSize \<Rightarrow> True
                | _ \<Rightarrow> label_measuredSize (self w))"
proof -
  from assms obtain e where e: "label_element (self w) = Some e"
    and len: "length (label_size (self w)) \<le> 2"
    by (auto simp: label_ok_def)
  show ?thesis
  proof (cases x)
    case (Deploy cw ch)
    let ?e = "e\<lparr>surface := (surface e)\<lparr>currentTarget :=
                 Some \<lparr>clientWidth = cw, clientHeight = ch\<rparr>\<rparr>\<rparr>"
    let ?w = "w\<lparr>self := (self w)\<lparr>label_element := Some ?e\<rparr>\<rparr>"
    have h: "label_element (self ?w) = Some ?e"
      "currentTarget (surface ?e) = Some \<lparr>clientWidth = cw, clientHeight = ch\<rparr>"
      by simp_all
    show ?thesis
      unfolding Deploy step.simps deploy_event_result [OF e] deploy_handler_result [OF h]
      using len by (simp add: Let_def label_ok_def array_set_pair)
  qed (simp_all add: setSize_Some [OF e] setAutoSize_Some [OF e] setClasses_Some [OF e]
        setStyle_Some [OF e] setText_Some [OF e] getSize_def getText_def getStyle_def e
        label_ok_def len)
qed

lemma last_affecting_Cons:
  "(case rev (filter size_affecting (x # xs)) of [] \<Rightarrow> a | y # _ \<Rightarrow> y = SetAutoSize) =
   (case rev (filter size_affecting xs) of
      [] \<Rightarrow> (case x of SetSize _ \<Rightarrow> False | SetAutoSize \<Rightarrow> True | _ \<Rightarrow> a)
    | y # _ \<Rightarrow> y = SetAutoSize)"
  by (cases x; cases "rev (filter size_affecting xs)") simp_all

lemma run_measuring:
  "label_ok w \<Longrightarrow>
   \<exists>w'. run ops w = Inr w' \<and> label_ok w'
      \<and> label_measuredSize (self w') =
          (case rev (filter size_affecting ops) of
             [] \<Rightarrow> label_measuredSize (self w) | y # _ \<Rightarrow> y = SetAutoSize)"
proof (induction ops arbitrary: w)
  case Nil
  then show ?case by simp
next
  case (Cons x xs)
  from step_measuring [OF Cons.prems, of x] obtain w1 where
    s: "step x w = Inr w1" and ok: "label_ok w1"
    and m: "label_measuredSize (self w1) =
        (case x of SetSize _ \<Rightarrow> False | SetAutoSize \<Rightarrow> True
         | _ \<Rightarrow> label_measuredSize (self w))"
    by blast
  from Cons.IH [OF ok] obtain w' where
    r: "run xs w1 = Inr w'" and ok': "label_ok w'"
    and m': "label_measuredSize (self w') =
        (case rev (filter size_affecting xs) of
           [] \<Rightarrow> label_measuredSize (self w1) | y # _ \<Rightarrow> y = SetAutoSize)"
    by blast
  have "run (x # xs) w = Inr w'" using s r by simp
  moreover have "label_measuredSize (self w') =
      (case rev (filter size_affecting (x # xs)) of
         [] \<Rightarrow> label_measuredSize (self w) | y # _ \<Rightarrow> y = SetAutoSize)"
    unfolding last_affecting_Cons m' m ..
  ultimately show ?case using ok' by blast
qed

text \<open>Every history of a constructed label runs to its end and keeps the label's shape.\<close>

lemma lifecycle_label_ok: "\<exists>w. lifecycle s opts ops = Inr w \<and> label_ok w"
proof -
  have "label_ok \<lparr>self = \<lparr>label_size = [], label_measuredSize = (opt_size opts = None),
              label_text = opt_text opts,
              label_element = Some \<lparr>content = opt_text opts, classes = opt_classes opts,
                style = opt_style opts,
                element_size = (case opt_size opts of Some sz \<Rightarrow> sz | None \<Rightarrow> [Auto, Auto]),
                surface = s\<rparr>\<rparr>,
           calls = ElementSetSize [Auto, Auto] #
             (case opt_size opts of Some sz \<Rightarrow> [ElementSetSize sz] | None \<Rightarrow> [])\<rparr>"
    by (simp add: label_ok_def)
  from run_measuring [OF this, of ops] show ?thesis
    by (auto simp: lifecycle_def constructor_result)
qed

text \<open>
  C2. Every history of a constructed label runs to its end, and there the flag
  \<^verbatim>\<open>_measuredSize\<close> is true iff the last size-affecting call was \<^verbatim>\<open>setAutoSize\<close>, or
  there was none and the label was constructed without a size option. The constructor,
  \<^verbatim>\<open>setSize\<close> and \<^verbatim>\<open>setAutoSize\<close> each keep this.
\<close>

theorem measuredSize_follows_history:
  "\<exists>w. lifecycle s opts ops = Inr w \<and> label_measuredSize (self w) = spec_measuring opts ops"
proof -
  obtain w0 where c: "constructor s (Some opts) = Inr w0"
    and ok: "label_ok w0"
    and m: "label_measuredSize (self w0) = (opt_size opts = None)"
    by (simp add: constructor_result label_ok_def)
  from run_measuring [OF ok, of ops] obtain w where r: "run ops w0 = Inr w"
    and mw: "label_measuredSize (self w) =
        (case rev (filter size_affecting ops) of
           [] \<Rightarrow> label_measuredSize (self w0) | y # _ \<Rightarrow> y = SetAutoSize)"
    by blast
  have "lifecycle s opts ops = Inr w"
    using c r by (simp add: lifecycle_def)
  moreover have "label_measuredSize (self w) = spec_measuring opts ops"
    unfolding mw m spec_measuring_def ..
  ultimately show ?thesis by blast
qed

end
